theory Spec2Isabelle
  imports Main "HOL-Library.Sublist" "HOL-Library.AList"
begin

section \<open>Python values and exceptions\<close>

text \<open>
  The exceptions of \<^verbatim>\<open>gaffer/gafferd/keys.py\<close> (the four classes the module declares)
  and the built-in ones its statements can raise. \<open>NameError n\<close> is what Python raises
  when a statement evaluates the global name \<open>n\<close> and nothing binds it;
  \<open>AttributeError n\<close> is a read of an attribute \<open>n\<close> the object does not have.
\<close>

datatype error =
    KeyNotFound
  | KeyConflict
  | InvalidKey
  | UnknownPermission
  | TypeError
  | ValueError
  | KeyError
  | IndexError
  | AssertionError
  | NameError string
  | AttributeError string

text \<open>
  The values an attribute of a key or an entry of its permissions mapping can hold, as
  far as \<open>in\<close> and truthiness tell them apart: a string, a list of strings, a dict
  (its keys), a bool, \<open>None\<close>, and any other object (a bound method, a class).
\<close>

datatype pyval =
    PStr string
  | PList "string list"
  | PDict "string list"
  | PBool bool
  | PNone
  | PObject

fun truthy :: "pyval \<Rightarrow> bool" where
  "truthy (PStr s) = (s \<noteq> [])"
| "truthy (PList xs) = (xs \<noteq> [])"
| "truthy (PDict ks) = (ks \<noteq> [])"
| "truthy (PBool b) = b"
| "truthy PNone = False"
| "truthy PObject = True"

text \<open>\<open>a in b\<close> on two strings: \<open>a\<close> occurs in \<open>b\<close> as a contiguous run.\<close>

fun str_contains :: "string \<Rightarrow> string \<Rightarrow> bool" where
  "str_contains [] a = (a = [])"
| "str_contains (c # cs) a = (prefix a (c # cs) \<or> str_contains cs a)"

text \<open>
  \<open>x in v\<close>: substring test on a string, membership on a list, key membership on a
  dict, \<open>TypeError\<close> on a value that is not a container.
\<close>

fun py_in :: "string \<Rightarrow> pyval \<Rightarrow> error + bool" where
  "py_in x (PStr s) = Inr (str_contains s x)"
| "py_in x (PList xs) = Inr (x \<in> set xs)"
| "py_in x (PDict ks) = Inr (x \<in> set ks)"
| "py_in x (PBool b) = Inl TypeError"
| "py_in x PNone = Inl TypeError"
| "py_in x PObject = Inl TypeError"

text \<open>\<open>d.get(name, None) or {}\<close> on a dict given as an association list.\<close>

definition get_or_empty :: "(string \<times> pyval) list \<Rightarrow> string \<Rightarrow> pyval" where
  "get_or_empty d name =
     (case map_of d name of
        None \<Rightarrow> PDict []
      | Some v \<Rightarrow> if truthy v then v else PDict [])"

text \<open>\<open>d.get(name, False)\<close>.\<close>

definition get_or_false :: "(string \<times> pyval) list \<Rightarrow> string \<Rightarrow> pyval" where
  "get_or_false d name = (case map_of d name of None \<Rightarrow> PBool False | Some v \<Rightarrow> v)"

section \<open>Key\<close>

text \<open>
  An instance of \<^verbatim>\<open>class Key\<close>: the nine attributes \<^verbatim>\<open>__init__\<close> assigns
  (\<open>write_attr\<close> is \<^verbatim>\<open>self.write\<close>). The permissions mapping is a dict from entry
  names to values.
\<close>

record key =
  api_key :: string
  label :: string
  permissions :: "(string \<times> pyval) list"
  manage :: pyval
  write_attr :: pyval
  read :: pyval
  can_manage_all :: bool
  can_write_all :: bool
  can_read_all :: bool

text \<open>
  \<^verbatim>\<open>Key.__init__(self, api_key, label, permissions)\<close>. The three sets are read from the
  mapping in the order of the source; line 39 reads the entry \<^verbatim>\<open>'write'\<close> for
  \<^verbatim>\<open>self.read\<close>. The three tests \<^verbatim>\<open>'*' in ...\<close> raise \<open>TypeError\<close> on an entry that
  is not a container.
\<close>

definition Key :: "string \<Rightarrow> string \<Rightarrow> (string \<times> pyval) list \<Rightarrow> error + key" where
  "Key a l ps =
     (let m = get_or_empty ps ''manage'';
          w = get_or_empty ps ''write'';
          r = get_or_empty ps ''write''
      in case py_in ''*'' m of
           Inl e \<Rightarrow> Inl e
         | Inr ma \<Rightarrow>
            (case py_in ''*'' w of
               Inl e \<Rightarrow> Inl e
             | Inr wa \<Rightarrow>
                (case py_in ''*'' r of
                   Inl e \<Rightarrow> Inl e
                 | Inr ra \<Rightarrow>
                     Inr \<lparr> api_key = a, label = l, permissions = ps,
                           manage = m, write_attr = w, read = r,
                           can_manage_all = ma, can_write_all = wa, can_read_all = ra \<rparr>)))"

text \<open>
  The objects \<^verbatim>\<open>Key.dump\<close> returns and \<^verbatim>\<open>Key.load\<close> reads: a dict with the entries
  \<^verbatim>\<open>key\<close>, \<^verbatim>\<open>label\<close> and \<^verbatim>\<open>permissions\<close>, each present or absent.
\<close>

record key_obj =
  obj_key :: "string option"
  obj_label :: "string option"
  obj_permissions :: "(string \<times> pyval) list option"

definition load :: "key_obj \<Rightarrow> error + key" where
  "load obj =
     (case obj_key obj of
        None \<Rightarrow> Inl InvalidKey
      | Some k \<Rightarrow>
          Key k (case obj_label obj of None \<Rightarrow> [] | Some l \<Rightarrow> l)
                (case obj_permissions obj of None \<Rightarrow> [] | Some ps \<Rightarrow> ps))"

definition dump :: "key \<Rightarrow> key_obj" where
  "dump k = \<lparr> obj_key = Some (api_key k), obj_label = Some (label k),
             obj_permissions = Some (permissions k) \<rparr>"

definition is_superuser :: "key \<Rightarrow> pyval" where
  "is_superuser k = get_or_false (permissions k) ''superuser''"

definition can_create_key :: "key \<Rightarrow> pyval" where
  "can_create_key k = get_or_false (permissions k) ''create_key''"

definition can_create_user :: "key \<Rightarrow> pyval" where
  "can_create_user k = get_or_false (permissions k) ''create_user''"

text \<open>
  Attribute lookup on a key, for \<^verbatim>\<open>hasattr\<close> and \<^verbatim>\<open>getattr\<close>: the instance attributes,
  then the methods the class declares, then whatever the Python runtime gives every
  object (\<^verbatim>\<open>__class__\<close>, \<^verbatim>\<open>__doc__\<close>, ...). That last table is not part of the module;
  it is the parameter \<open>rt\<close>.
\<close>

definition key_methods :: "string list" where
  "key_methods =
     [''__init__'', ''__str__'', ''load'', ''dump'', ''is_superuser'', ''can_create_key'',
      ''can_create_user'', ''can_manage'', ''can_write'', ''can_read'', ''can'']"

definition getattr :: "(string \<Rightarrow> pyval option) \<Rightarrow> key \<Rightarrow> string \<Rightarrow> pyval option" where
  "getattr rt k name =
     (if name = ''api_key'' then Some (PStr (api_key k))
      else if name = ''label'' then Some (PStr (label k))
      else if name = ''permissions'' then Some (PDict (map fst (permissions k)))
      else if name = ''manage'' then Some (manage k)
      else if name = ''write'' then Some (write_attr k)
      else if name = ''read'' then Some (read k)
      else if name = ''can_manage_all'' then Some (PBool (can_manage_all k))
      else if name = ''can_write_all'' then Some (PBool (can_write_all k))
      else if name = ''can_read_all'' then Some (PBool (can_read_all k))
      else if name \<in> set key_methods then Some PObject
      else rt name)"

text \<open>
  \<^verbatim>\<open>Key.can(self, permission, what)\<close>, statement by statement: the \<^verbatim>\<open>hasattr\<close> guard,
  the lookup of the attribute named \<^verbatim>\<open>"%s_all" % permission\<close> with default \<open>False\<close>,
  the session test when \<open>what\<close> has a dot, and the test of \<open>what\<close> itself.
\<close>

definition can :: "(string \<Rightarrow> pyval option) \<Rightarrow> key \<Rightarrow> string \<Rightarrow> string \<Rightarrow> error + bool" where
  "can rt k permission what =
     (case getattr rt k permission of
        None \<Rightarrow> Inl UnknownPermission
      | Some perms \<Rightarrow>
          if (case getattr rt k (permission @ ''_all'') of None \<Rightarrow> False | Some v \<Rightarrow> truthy v)
          then Inr True
          else if CHR ''.'' \<in> set what
          then (case py_in (takeWhile (\<lambda>c. c \<noteq> CHR ''.'') what) perms of
                  Inl e \<Rightarrow> Inl e
                | Inr b \<Rightarrow> if b then Inr True else py_in what perms)
          else py_in what perms)"

definition can_manage :: "(string \<Rightarrow> pyval option) \<Rightarrow> key \<Rightarrow> string \<Rightarrow> error + bool" where
  "can_manage rt k job_or_session = can rt k ''manage'' job_or_session"

definition can_write :: "(string \<Rightarrow> pyval option) \<Rightarrow> key \<Rightarrow> string \<Rightarrow> error + bool" where
  "can_write rt k job_or_session =
     (case can_manage rt k job_or_session of
        Inl e \<Rightarrow> Inl e
      | Inr b \<Rightarrow> if b then Inr True else can rt k ''write'' job_or_session)"

definition can_read :: "(string \<Rightarrow> pyval option) \<Rightarrow> key \<Rightarrow> string \<Rightarrow> error + bool" where
  "can_read rt k job_or_session =
     (case can_write rt k job_or_session of
        Inl e \<Rightarrow> Inl e
      | Inr b \<Rightarrow> if b then Inr True else can rt k ''read'' job_or_session)"

text \<open>
  The attributes a CPython 3 interpreter gives an instance of a class that derives from
  \<^verbatim>\<open>object\<close>, for the closed evaluations below: two strings, the instance dict, the
  empty weak-reference slot, and opaque objects.
\<close>

definition object_names :: "string list" where
  "object_names =
     [''__class__'', ''__delattr__'', ''__dir__'', ''__eq__'', ''__format__'', ''__ge__'',
      ''__getattribute__'', ''__gt__'', ''__hash__'', ''__init_subclass__'', ''__le__'',
      ''__lt__'', ''__ne__'', ''__new__'', ''__reduce__'', ''__reduce_ex__'', ''__repr__'',
      ''__setattr__'', ''__sizeof__'', ''__subclasshook__'']"

definition py3_object :: "string \<Rightarrow> pyval option" where
  "py3_object name =
     (if name = ''__doc__'' then Some (PStr '' instance representing a key '')
      else if name = ''__module__'' then Some (PStr ''gaffer.gafferd.keys'')
      else if name = ''__dict__'' then
        Some (PDict [''api_key'', ''label'', ''permissions'', ''manage'', ''write'', ''read'',
                     ''can_manage_all'', ''can_write_all'', ''can_read_all''])
      else if name = ''__weakref__'' then Some PNone
      else if name \<in> set object_names then Some PObject
      else None)"

section \<open>The key store\<close>

text \<open>
  \<^verbatim>\<open>keys.py\<close> uses the names \<^verbatim>\<open>json\<close>, \<^verbatim>\<open>os\<close>, \<^verbatim>\<open>Lock\<close> and \<^verbatim>\<open>patch_loop\<close> of
  libraries it does not import. The model takes the two functions of the \<^verbatim>\<open>json\<close>
  library that the store calls as parameters: \<open>loads\<close> (\<open>None\<close> when the text is not
  JSON, a \<open>ValueError\<close>) and \<open>dumps\<close>. The exception class \<^verbatim>\<open>UserConflict\<close> that
  \<^verbatim>\<open>SqliteKeyBackend.set_key\<close> raises is no library name and no class of the module:
  evaluating the name raises \<open>NameError\<close>.
\<close>

datatype json =
    JNull
  | JBool bool
  | JNum int
  | JStr string
  | JList "json list"
  | JObj "(string \<times> json) list"

text \<open>
  A row of the table \<^verbatim>\<open>keys (key text primary key, data text, parent text)\<close>, and the
  backend: its connection is \<open>None\<close> until \<^verbatim>\<open>open\<close>, then the rows of the table in
  insertion order.
\<close>

type_synonym row = "string \<times> string \<times> string option"

record sqlite_key_backend =
  conn :: "row list option"

text \<open>The \<open>data\<close> argument of \<^verbatim>\<open>set_key\<close>: a text, or a dict to be serialised.\<close>

datatype key_data = DataStr string | DataDict "(string \<times> json) list"

text \<open>
  \<^verbatim>\<open>SqliteKeyBackend._make_key(row)\<close>: decode the data column and set the entry
  \<^verbatim>\<open>"key"\<close>; only a dict has \<^verbatim>\<open>update\<close>.
\<close>

definition make_key :: "(string \<Rightarrow> json option) \<Rightarrow> row \<Rightarrow> error + json" where
  "make_key loads r =
     (case loads (fst (snd r)) of
        None \<Rightarrow> Inl ValueError
      | Some (JObj kvs) \<Rightarrow> Inr (JObj (AList.update ''key'' (JStr (fst r)) kvs))
      | Some _ \<Rightarrow> Inl (AttributeError ''update''))"

text \<open>
  \<^verbatim>\<open>SqliteKeyBackend.set_key(key, data, parent)\<close>. The \<^verbatim>\<open>INSERT\<close> fails with
  \<^verbatim>\<open>sqlite3.IntegrityError\<close> when a row with the same primary key exists; the handler's
  \<^verbatim>\<open>raise UserConflict()\<close> then raises \<open>NameError\<close>, and the transaction is rolled back.
\<close>

definition backend_set_key ::
  "((string \<times> json) list \<Rightarrow> string) \<Rightarrow> sqlite_key_backend \<Rightarrow> string \<Rightarrow> key_data \<Rightarrow>
   string option \<Rightarrow> (error + unit) \<times> sqlite_key_backend" where
  "backend_set_key dumps b k data parent =
     (case conn b of
        None \<Rightarrow> (Inl AssertionError, b)
      | Some rows \<Rightarrow>
          (let txt = (case data of DataStr t \<Rightarrow> t | DataDict d \<Rightarrow> dumps d)
           in if k \<in> set (map fst rows)
              then (Inl (NameError ''UserConflict''), b)
              else (Inr (), b\<lparr> conn := Some (rows @ [(k, txt, parent)]) \<rparr>)))"

text \<open>\<^verbatim>\<open>SqliteKeyBackend.get_key(key)\<close>: the row with that key, or \<open>KeyNotFound\<close>.\<close>

definition backend_get_key ::
  "(string \<Rightarrow> json option) \<Rightarrow> sqlite_key_backend \<Rightarrow> string \<Rightarrow> error + json" where
  "backend_get_key loads b k =
     (case conn b of
        None \<Rightarrow> Inl AssertionError
      | Some rows \<Rightarrow>
          (case find (\<lambda>r. fst r = k) rows of
             None \<Rightarrow> Inl KeyNotFound
           | Some r \<Rightarrow> make_key loads r))"

text \<open>\<^verbatim>\<open>SqliteKeyBackend.delete_key(key)\<close>: \<^verbatim>\<open>DELETE FROM keys WHERE key=?\<close>.\<close>

definition backend_delete_key ::
  "sqlite_key_backend \<Rightarrow> string \<Rightarrow> (error + unit) \<times> sqlite_key_backend" where
  "backend_delete_key b k =
     (case conn b of
        None \<Rightarrow> (Inl AssertionError, b)
      | Some rows \<Rightarrow> (Inr (), b\<lparr> conn := Some (filter (\<lambda>r. fst r \<noteq> k) rows) \<rparr>))"

text \<open>
  \<^verbatim>\<open>SqliteKeyBackend.has_key(key)\<close>: \<open>False\<close> on \<open>KeyNotFound\<close>; any other exception of
  \<^verbatim>\<open>get_key\<close> passes through.
\<close>

definition backend_has_key ::
  "(string \<Rightarrow> json option) \<Rightarrow> sqlite_key_backend \<Rightarrow> string \<Rightarrow> error + bool" where
  "backend_has_key loads b k =
     (case backend_get_key loads b k of
        Inl e \<Rightarrow> if e = KeyNotFound then Inr False else Inl e
      | Inr okey \<Rightarrow> Inr True)"

text \<open>
  \<^verbatim>\<open>KeyManager\<close>: the dict \<^verbatim>\<open>_cache\<close> (in insertion order), the deque \<^verbatim>\<open>_entries\<close> and
  the backend.
\<close>

record key_manager =
  cache :: "(string \<times> json) list"
  entries :: "string list"
  backend :: sqlite_key_backend

text \<open>
  \<^verbatim>\<open>KeyManager._delete_entry(key)\<close>. \<^verbatim>\<open>deque.remove\<close> raises \<open>ValueError\<close> when the
  key is not in the deque.
\<close>

definition delete_entry :: "key_manager \<Rightarrow> string \<Rightarrow> (error + unit) \<times> key_manager" where
  "delete_entry m k =
     (case map_of (cache m) k of
        None \<Rightarrow> (Inr (), m)
      | Some v \<Rightarrow>
          if k \<in> set (entries m)
          then (Inr (), m\<lparr> entries := remove1 k (entries m),
                            cache := AList.delete k (cache m) \<rparr>)
          else (Inl ValueError, m))"

text \<open>
  \<^verbatim>\<open>KeyManager.get_key(key)\<close>. On a miss with 1000 or more cached keys, line 201 pops
  the oldest entry of the deque (\<open>IndexError\<close> when it is empty) and line 202 pops
  \<open>key\<close>, the argument, from the cache: \<^verbatim>\<open>dict.pop\<close> without a default raises
  \<open>KeyError\<close> when the key is absent. Lines 205-207 insert the new entry.
\<close>

definition cache_insert :: "key_manager \<Rightarrow> string \<Rightarrow> json \<Rightarrow> (error + json) \<times> key_manager" where
  "cache_insert m k okey =
     (Inr okey, m\<lparr> cache := AList.update k okey (cache m), entries := entries m @ [k] \<rparr>)"

definition get_key ::
  "(string \<Rightarrow> json option) \<Rightarrow> key_manager \<Rightarrow> string \<Rightarrow> (error + json) \<times> key_manager" where
  "get_key loads m k =
     (case map_of (cache m) k of
        Some v \<Rightarrow> (Inr v, m)
      | None \<Rightarrow>
          (case backend_get_key loads (backend m) k of
             Inl e \<Rightarrow> (Inl e, m)
           | Inr okey \<Rightarrow>
               if length (cache m) \<ge> 1000
               then (case entries m of
                       [] \<Rightarrow> (Inl IndexError, m)
                     | last_entry # rest \<Rightarrow>
                         (case map_of (cache m) k of
                            None \<Rightarrow> (Inl KeyError, m\<lparr> entries := rest \<rparr>)
                          | Some v \<Rightarrow>
                              cache_insert
                                (m\<lparr> entries := rest, cache := AList.delete k (cache m) \<rparr>)
                                k okey))
               else cache_insert m k okey))"

text \<open>
  \<^verbatim>\<open>KeyManager.set_key(key, data, parent)\<close>. The event emitter is not part of the module;
  \<open>publlish\<close> is the outcome of the call \<^verbatim>\<open>self._emitter.publlish("set", self, key)\<close>.
\<close>

definition set_key ::
  "((string \<times> json) list \<Rightarrow> string) \<Rightarrow> (string \<Rightarrow> error + unit) \<Rightarrow> key_manager \<Rightarrow> string \<Rightarrow>
   key_data \<Rightarrow> string option \<Rightarrow> (error + unit) \<times> key_manager" where
  "set_key dumps publlish m k data parent =
     (case backend_set_key dumps (backend m) k data parent of
        (Inl e, b) \<Rightarrow> (Inl e, m\<lparr> backend := b \<rparr>)
      | (Inr u, b) \<Rightarrow> (publlish ''set'', m\<lparr> backend := b \<rparr>))"

text \<open>
  \<^verbatim>\<open>KeyManager.delete_key(key)\<close>. After \<^verbatim>\<open>self._delete_entry(key)\<close>, line 212 reads
  \<^verbatim>\<open>self.conn\<close>. \<^verbatim>\<open>KeyManager.__init__\<close> binds \<^verbatim>\<open>loop\<close>, \<^verbatim>\<open>cfg\<close>, \<^verbatim>\<open>_cache\<close>,
  \<^verbatim>\<open>_entries\<close>, \<^verbatim>\<open>_lock\<close>, \<^verbatim>\<open>_backend\<close> and \<^verbatim>\<open>_emitter\<close>, and the class declares no
  \<^verbatim>\<open>conn\<close>: the read raises \<open>AttributeError\<close>, and lines 213-219 (the query for the
  sub keys, \<^verbatim>\<open>self._backend.delete_key\<close>, the event) never run.
\<close>

definition delete_key :: "key_manager \<Rightarrow> string \<Rightarrow> (error + unit) \<times> key_manager" where
  "delete_key m k =
     (case delete_entry m k of
        (Inl e, m') \<Rightarrow> (Inl e, m')
      | (Inr u, m') \<Rightarrow> (Inl (AttributeError ''conn''), m'))"

definition has_key :: "(string \<Rightarrow> json option) \<Rightarrow> key_manager \<Rightarrow> string \<Rightarrow> error + bool" where
  "has_key loads m k = backend_has_key loads (backend m) k"

text \<open>
  For the closed evaluations below: \<^verbatim>\<open>json.loads\<close> on the one text the example rows
  store, the empty JSON object.
\<close>

definition loads_example :: "string \<Rightarrow> json option" where
  "loads_example t = (if t = ''{}'' then Some (JObj []) else None)"

text \<open>
  The scenario of the cache bound: \<open>n\<close> keys \<^verbatim>\<open>k\<close>, \<^verbatim>\<open>kk\<close>, \<^verbatim>\<open>kkk\<close>, ... and the key
  \<^verbatim>\<open>new\<close>, each stored with the data \<^verbatim>\<open>{}\<close> and no parent; \<open>cached n\<close> is the cache
  that holds the first \<open>n\<close> of them, as \<^verbatim>\<open>_make_key\<close> returns them.
\<close>

definition key_name :: "nat \<Rightarrow> string" where
  "key_name i = replicate (Suc i) CHR ''k''"

definition cold_rows :: "nat \<Rightarrow> row list" where
  "cold_rows n = map (\<lambda>i. (key_name i, ''{}'', None)) [0..<n] @ [(''new'', ''{}'', None)]"

definition cached :: "nat \<Rightarrow> (string \<times> json) list" where
  "cached n = map (\<lambda>i. (key_name i, JObj [(''key'', JStr (key_name i))])) [0..<n]"

section \<open>The configuration of gafferd\<close>

text \<open>
  \<^verbatim>\<open>Server.get_config\<close> of \<^verbatim>\<open>gafferd.py\<close>. Its input is the parser that \<^verbatim>\<open>read_config\<close>
  returns: the sections in order, each with its (option, value) pairs. What the
  libraries compute is a parameter of the model:
  \<^item> \<open>python3\<close> tells the two language versions apart that the module imports for
    (\<^verbatim>\<open>configparser\<close>, else \<^verbatim>\<open>ConfigParser\<close>). They differ in two places: \<^verbatim>\<open>cfg.items\<close>
    reads every option through \<^verbatim>\<open>parser.get\<close> in Python 3 only, and \<^verbatim>\<open>os.path.join\<close>
    checks the type of its first argument in Python 3 only.
  \<^item> \<open>to_int\<close> is \<^verbatim>\<open>int\<close> and \<open>to_boolean\<close> is the parser's conversion of a value to a
    bool.
  \<^item> \<open>gettempdir\<close> is \<^verbatim>\<open>tempfile.gettempdir()\<close>, and \<open>repr_str\<close> is \<^verbatim>\<open>repr\<close> on a string.
\<close>

type_synonym items = "(string \<times> string) list"

type_synonym config = "(string \<times> items) list"

record pylib =
  python3 :: bool
  to_int :: "string \<Rightarrow> error + int"
  to_boolean :: "string \<Rightarrow> error + bool"
  gettempdir :: string
  repr_str :: "string \<Rightarrow> string"

definition has_option :: "config \<Rightarrow> string \<Rightarrow> string \<Rightarrow> bool" where
  "has_option cfg section option =
     (case map_of cfg section of None \<Rightarrow> False | Some its \<Rightarrow> map_of its option \<noteq> None)"

text \<open>
  \<^verbatim>\<open>super(DefaultConfigParser, self).get(section, option)\<close> on an option that is
  present with value \<open>v\<close>. The call raises \<open>TypeError\<close> in both versions. In Python 2
  the parser of \<^verbatim>\<open>ConfigParser\<close> is a classic class, and \<^verbatim>\<open>super\<close> refuses a classic
  class. In Python 3 the inherited method interpolates the value, and the
  interpolation calls \<^verbatim>\<open>parser.get(section, option, raw=True, fallback=...)\<close>, that is
  the \<^verbatim>\<open>get\<close> of line 42, which takes no such arguments. The inherited \<^verbatim>\<open>getboolean\<close>
  of line 55 is reached through \<^verbatim>\<open>super\<close> in the same way.
\<close>

definition super_get :: "pylib \<Rightarrow> string \<Rightarrow> error + string" where
  "super_get lib v = Inl TypeError"

text \<open>
  \<^verbatim>\<open>cfg.items(section)\<close> on a section with the pairs \<open>its\<close>: Python 3 interpolates each
  value through \<^verbatim>\<open>parser.get\<close>, Python 2 does not call \<^verbatim>\<open>get\<close>.
\<close>

definition cfg_items :: "pylib \<Rightarrow> items \<Rightarrow> error + items" where
  "cfg_items lib its = (if python3 lib \<and> its \<noteq> [] then Inl TypeError else Inr its)"

text \<open>
  The three methods of \<^verbatim>\<open>DefaultConfigParser\<close>: the default when the option is absent,
  else the inherited method; \<^verbatim>\<open>_get\<close> and the inherited \<^verbatim>\<open>getboolean\<close> read the value
  through \<^verbatim>\<open>self.get(section, option)\<close>, the overridden method.
\<close>

definition cfg_get :: "pylib \<Rightarrow> config \<Rightarrow> string \<Rightarrow> string \<Rightarrow> string \<Rightarrow> error + string" where
  "cfg_get lib cfg section option dflt =
     (case map_of cfg section of
        None \<Rightarrow> Inr dflt
      | Some its \<Rightarrow> (case map_of its option of None \<Rightarrow> Inr dflt | Some v \<Rightarrow> super_get lib v))"

definition cfg_getint :: "pylib \<Rightarrow> config \<Rightarrow> string \<Rightarrow> string \<Rightarrow> int \<Rightarrow> error + int" where
  "cfg_getint lib cfg section option dflt =
     (case map_of cfg section of
        None \<Rightarrow> Inr dflt
      | Some its \<Rightarrow>
          (case map_of its option of
             None \<Rightarrow> Inr dflt
           | Some v \<Rightarrow> (case super_get lib v of Inl e \<Rightarrow> Inl e | Inr t \<Rightarrow> to_int lib t)))"

definition cfg_getboolean ::
  "pylib \<Rightarrow> config \<Rightarrow> string \<Rightarrow> string \<Rightarrow> bool \<Rightarrow> error + bool" where
  "cfg_getboolean lib cfg section option dflt =
     (case map_of cfg section of
        None \<Rightarrow> Inr dflt
      | Some its \<Rightarrow>
          (case map_of its option of
             None \<Rightarrow> Inr dflt
           | Some v \<Rightarrow> (case super_get lib v of Inl e \<Rightarrow> Inl e | Inr t \<Rightarrow> to_boolean lib t)))"

text \<open>\<^verbatim>\<open>s.split(",")\<close>: the pieces between the separators, at least one.\<close>

fun split_on :: "char \<Rightarrow> string \<Rightarrow> string list" where
  "split_on c [] = [[]]"
| "split_on c (x # xs) =
     (if x = c then [] # split_on c xs
      else (case split_on c xs of [] \<Rightarrow> [[x]] | p # ps \<Rightarrow> (x # p) # ps))"

text \<open>
  The two dict objects that the module creates once, inside \<^verbatim>\<open>PROCESS_DEFAULTS\<close> and
  \<^verbatim>\<open>ENDPOINT_DEFAULTS\<close>. \<^verbatim>\<open>dict.copy()\<close> is shallow: a copy of the defaults holds a
  reference to the same object, so the model keeps the objects in a heap and the
  references in the records.
\<close>

datatype ref = PROCESS_DEFAULTS_env | ENDPOINT_DEFAULTS_ssl_options

record heap =
  env_object :: items
  ssl_options_object :: items

definition deref :: "heap \<Rightarrow> ref \<Rightarrow> items" where
  "deref h r = (case r of PROCESS_DEFAULTS_env \<Rightarrow> env_object h
                | ENDPOINT_DEFAULTS_ssl_options \<Rightarrow> ssl_options_object h)"

text \<open>\<^verbatim>\<open>d[k] = v\<close> on the dict that \<open>r\<close> refers to.\<close>

definition setitem :: "heap \<Rightarrow> ref \<Rightarrow> string \<Rightarrow> string \<Rightarrow> heap" where
  "setitem h r k v =
     (case r of
        PROCESS_DEFAULTS_env \<Rightarrow> h\<lparr> env_object := AList.update k v (env_object h) \<rparr>
      | ENDPOINT_DEFAULTS_ssl_options \<Rightarrow>
          h\<lparr> ssl_options_object := AList.update k v (ssl_options_object h) \<rparr>)"

record params =
  group :: "string option"
  args :: "string option"
  env :: ref
  uid :: "string option"
  gid :: "string option"
  cwd :: "string option"
  detach :: bool
  numprocesses :: int
  start :: bool

definition PROCESS_DEFAULTS :: params where
  "PROCESS_DEFAULTS =
     \<lparr> group = None, args = None, env = PROCESS_DEFAULTS_env, uid = None, gid = None,
       cwd = None, detach = False, numprocesses = 1, start = True \<rparr>"

record endpoint_kwargs =
  uri :: "string option"
  backlog :: int
  ssl_options :: "ref option"

definition ENDPOINT_DEFAULTS :: endpoint_kwargs where
  "ENDPOINT_DEFAULTS =
     \<lparr> uri = None, backlog = 128, ssl_options = Some ENDPOINT_DEFAULTS_ssl_options \<rparr>"

text \<open>
  The variable \<^verbatim>\<open>kwargs\<close> of the endpoint branch: the copy of the defaults, or the
  integer that line 115 assigns to it.
\<close>

datatype kwargs = KwDict endpoint_kwargs | KwInt int

text \<open>
  The endpoints \<^verbatim>\<open>get_config\<close> constructs: \<^verbatim>\<open>HttpEndpoint(**kwargs)\<close>, and
  \<^verbatim>\<open>HttpEndpoint(uri=...)\<close> for the default.
\<close>

datatype http_endpoint = HttpEndpoint endpoint_kwargs | HttpEndpointUri string

text \<open>One turn of the loop over \<^verbatim>\<open>cfg.items(section)\<close> in the endpoint branch.\<close>

definition endpoint_item ::
  "pylib \<Rightarrow> config \<Rightarrow> string \<Rightarrow> string \<times> string \<Rightarrow> kwargs \<times> heap \<Rightarrow> error + kwargs \<times> heap" where
  "endpoint_item lib cfg section kv st =
     (let key = fst kv; val = snd kv; kw = fst st; h = snd st
      in if key = ''bind'' then
           (case kw of
              KwDict d \<Rightarrow> Inr (KwDict (d\<lparr> uri := Some val \<rparr>), h)
            | KwInt n \<Rightarrow> Inl TypeError)
         else if key = ''backlog'' then
           (case cfg_getint lib cfg section key 128 of
              Inl e \<Rightarrow> Inl e
            | Inr n \<Rightarrow> Inr (KwInt n, h))
         else if key = ''certfile'' \<or> key = ''keyfile'' then
           (case kw of
              KwDict d \<Rightarrow>
                (case ssl_options d of
                   None \<Rightarrow> Inl TypeError
                 | Some r \<Rightarrow> Inr (kw, setitem h r key val))
            | KwInt n \<Rightarrow> Inl TypeError)
         else Inr st)"

fun endpoint_items ::
  "pylib \<Rightarrow> config \<Rightarrow> string \<Rightarrow> items \<Rightarrow> kwargs \<times> heap \<Rightarrow> error + kwargs \<times> heap" where
  "endpoint_items lib cfg section [] st = Inr st"
| "endpoint_items lib cfg section (kv # kvs) st =
     (case endpoint_item lib cfg section kv st of
        Inl e \<Rightarrow> Inl e
      | Inr st' \<Rightarrow> endpoint_items lib cfg section kvs st')"

text \<open>One turn of the loop over \<^verbatim>\<open>cfg.items(section)\<close> in the process branch.\<close>

definition process_item ::
  "pylib \<Rightarrow> config \<Rightarrow> string \<Rightarrow> string \<times> string \<Rightarrow> params \<times> heap \<Rightarrow> error + params \<times> heap" where
  "process_item lib cfg section kv st =
     (let key = fst kv; val = snd kv; ps = fst st; h = snd st
      in if key = ''group'' then Inr (ps\<lparr> group := Some val \<rparr>, h)
         else if key = ''args'' then Inr (ps\<lparr> args := Some val \<rparr>, h)
         else if prefix ''env:'' key then Inr (ps, setitem h (env ps) (drop 4 key) val)
         else if key = ''uid'' then Inr (ps\<lparr> uid := Some val \<rparr>, h)
         else if key = ''gid'' then Inr (ps\<lparr> gid := Some val \<rparr>, h)
         else if key = ''cwd'' then Inr (ps\<lparr> cwd := Some val \<rparr>, h)
         else if key = ''detach'' then
           (case cfg_getboolean lib cfg section key False of
              Inl e \<Rightarrow> Inl e
            | Inr b \<Rightarrow> Inr (ps\<lparr> detach := b \<rparr>, h))
         else if key = ''numprocesses'' then
           (case cfg_getint lib cfg section key 1 of
              Inl e \<Rightarrow> Inl e
            | Inr n \<Rightarrow> Inr (ps\<lparr> numprocesses := n \<rparr>, h))
         else if key = ''start'' then
           (case cfg_getboolean lib cfg section key True of
              Inl e \<Rightarrow> Inl e
            | Inr b \<Rightarrow> Inr (ps\<lparr> start := b \<rparr>, h))
         else Inr st)"

fun process_items ::
  "pylib \<Rightarrow> config \<Rightarrow> string \<Rightarrow> items \<Rightarrow> params \<times> heap \<Rightarrow> error + params \<times> heap" where
  "process_items lib cfg section [] st = Inr st"
| "process_items lib cfg section (kv # kvs) st =
     (case process_item lib cfg section kv st of
        Inl e \<Rightarrow> Inl e
      | Inr st' \<Rightarrow> process_items lib cfg section kvs st')"

text \<open>
  The state of the loop over \<^verbatim>\<open>cfg.sections()\<close>: the two lists and the heap. A process
  is the triple \<^verbatim>\<open>(name, cmd, params)\<close>.
\<close>

record loop_state =
  endpoints :: "http_endpoint list"
  processes :: "(string \<times> string \<times> params) list"
  objects :: heap

text \<open>The endpoint branch of the loop body, lines 107-124.\<close>

definition endpoint_section ::
  "pylib \<Rightarrow> config \<Rightarrow> string list \<Rightarrow> string \<times> items \<Rightarrow> loop_state \<Rightarrow> error + loop_state" where
  "endpoint_section lib cfg endpoints_names sec st =
     (let section = fst sec
      in if drop 9 section \<in> set endpoints_names then
           (case cfg_items lib (snd sec) of
              Inl e \<Rightarrow> Inl e
            | Inr its \<Rightarrow>
               (case endpoint_items lib cfg section its (KwDict ENDPOINT_DEFAULTS, objects st) of
                  Inl e \<Rightarrow> Inl e
                | Inr (KwInt n, h) \<Rightarrow> Inl TypeError
                | Inr (KwDict d, h) \<Rightarrow>
                   (let d' = (case ssl_options d of
                                None \<Rightarrow> d\<lparr> ssl_options := None \<rparr>
                              | Some r \<Rightarrow> if deref h r = [] then d\<lparr> ssl_options := None \<rparr> else d)
                    in if uri d' \<noteq> None
                       then Inr (st\<lparr> endpoints := endpoints st @ [HttpEndpoint d'], objects := h \<rparr>)
                       else Inr (st\<lparr> objects := h \<rparr>))))
         else Inr st)"

text \<open>The process branch of the loop body, lines 126-152.\<close>

definition process_section ::
  "pylib \<Rightarrow> config \<Rightarrow> string \<times> items \<Rightarrow> loop_state \<Rightarrow> error + loop_state" where
  "process_section lib cfg sec st =
     (let section = fst sec
      in case cfg_get lib cfg section ''cmd'' [] of
           Inl e \<Rightarrow> Inl e
         | Inr cmd \<Rightarrow>
             if cmd \<noteq> [] then
               (case cfg_items lib (snd sec) of
                  Inl e \<Rightarrow> Inl e
                | Inr its \<Rightarrow>
                   (case process_items lib cfg section its (PROCESS_DEFAULTS, objects st) of
                      Inl e \<Rightarrow> Inl e
                    | Inr (ps, h) \<Rightarrow>
                        Inr (st\<lparr> processes := processes st @ [(drop 8 section, cmd, ps)],
                                 objects := h \<rparr>)))
             else Inr st)"

definition section_step ::
  "pylib \<Rightarrow> config \<Rightarrow> string list \<Rightarrow> string \<times> items \<Rightarrow> loop_state \<Rightarrow> error + loop_state" where
  "section_step lib cfg endpoints_names sec st =
     (if prefix ''endpoint:'' (fst sec) then endpoint_section lib cfg endpoints_names sec st
      else if prefix ''process:'' (fst sec) then process_section lib cfg sec st
      else Inr st)"

fun sections_loop ::
  "pylib \<Rightarrow> config \<Rightarrow> string list \<Rightarrow> config \<Rightarrow> loop_state \<Rightarrow> error + loop_state" where
  "sections_loop lib cfg names [] st = Inr st"
| "sections_loop lib cfg names (sec # secs) st =
     (case section_step lib cfg names sec st of
        Inl e \<Rightarrow> Inl e
      | Inr st' \<Rightarrow> sections_loop lib cfg names secs st')"

text \<open>
  \<^verbatim>\<open>os.path.join(a, *p)\<close> of \<^verbatim>\<open>posixpath\<close>. An argument is a string or, as on line
  156, a list. Python 3 converts every argument with \<^verbatim>\<open>os.fspath\<close>, which raises
  \<open>TypeError\<close> on a list. Python 2 starts from \<open>a\<close> as it is and calls
  \<^verbatim>\<open>b.startswith\<close> and \<^verbatim>\<open>path.endswith\<close> only while it walks through \<open>p\<close>: with no
  further argument it returns \<open>a\<close> itself, string or not.
\<close>

datatype path_arg = PathStr string | PathList "string list"

fun join3 :: "string \<Rightarrow> path_arg list \<Rightarrow> error + path_arg" where
  "join3 path [] = Inr (PathStr path)"
| "join3 path (PathList l # bs) = Inl TypeError"
| "join3 path (PathStr b # bs) =
     join3 (if prefix ''/'' b then b
            else if path = [] \<or> suffix ''/'' path then path @ b
            else path @ ''/'' @ b) bs"

fun join2 :: "path_arg \<Rightarrow> path_arg list \<Rightarrow> error + path_arg" where
  "join2 path [] = Inr path"
| "join2 path (PathList l # bs) = Inl (AttributeError ''startswith'')"
| "join2 path (PathStr b # bs) =
     (if prefix ''/'' b then join2 (PathStr b) bs
      else (case path of
              PathList l \<Rightarrow> Inl (AttributeError ''endswith'')
            | PathStr p \<Rightarrow>
                join2 (PathStr (if p = [] \<or> suffix ''/'' p then p @ b else p @ ''/'' @ b)) bs))"

definition os_path_join :: "pylib \<Rightarrow> path_arg \<Rightarrow> path_arg list \<Rightarrow> error + path_arg" where
  "os_path_join lib a p =
     (if python3 lib
      then (case a of PathList l \<Rightarrow> Inl TypeError | PathStr s \<Rightarrow> join3 s p)
      else join2 a p)"

text \<open>
  \<^verbatim>\<open>"unix:%s" % path\<close>: a list is formatted as \<^verbatim>\<open>str\<close> prints it, the \<^verbatim>\<open>repr\<close> of its
  elements between brackets.
\<close>

fun comma_joined :: "string list \<Rightarrow> string" where
  "comma_joined [] = []"
| "comma_joined [x] = x"
| "comma_joined (x # y # zs) = x @ '', '' @ comma_joined (y # zs)"

definition unix_uri :: "pylib \<Rightarrow> path_arg \<Rightarrow> string" where
  "unix_uri lib path =
     (case path of
        PathStr s \<Rightarrow> ''unix:'' @ s
      | PathList l \<Rightarrow> ''unix:['' @ comma_joined (map (repr_str lib) l) @ '']'')"

text \<open>
  \<^verbatim>\<open>Server.get_config\<close>, from the parser and the heap before the call to the exception
  it raises, or to its result (the endpoints handed to \<^verbatim>\<open>HttpHandler\<close>, and the
  processes) and the heap after the call.
\<close>

definition get_config ::
  "pylib \<Rightarrow> heap \<Rightarrow> config \<Rightarrow>
   error + (http_endpoint list \<times> (string \<times> string \<times> params) list) \<times> heap" where
  "get_config lib h cfg =
     (case cfg_get lib cfg ''gaffer'' ''http_endpoints'' [] of
        Inl e \<Rightarrow> Inl e
      | Inr endpoints_str \<Rightarrow>
         (case sections_loop lib cfg (split_on CHR '','' endpoints_str) cfg
                 \<lparr> endpoints = [], processes = [], objects = h \<rparr> of
            Inl e \<Rightarrow> Inl e
          | Inr st \<Rightarrow>
              if endpoints st = [] then
                (case os_path_join lib (PathList [gettempdir lib, ''gaffer.sock'']) [] of
                   Inl e \<Rightarrow> Inl e
                 | Inr path \<Rightarrow>
                     Inr (([HttpEndpointUri (unix_uri lib path)], processes st), objects st))
              else Inr ((endpoints st, processes st), objects st)))"

section \<open>Properties of Key\<close>

lemma Key_fields:
  assumes "Key a l ps = Inr k"
  shows "api_key k = a" and "label k = l" and "permissions k = ps"
  using assms by (auto simp: Key_def Let_def split: sum.splits)

lemma Key_sets:
  assumes "Key a l ps = Inr k"
  shows "manage k = get_or_empty ps ''manage''"
    and "write_attr k = get_or_empty ps ''write''"
    and "read k = get_or_empty ps ''write''"
  using assms by (auto simp: Key_def Let_def split: sum.splits)

lemma py_in_error: "py_in x v = Inl e \<Longrightarrow> e = TypeError"
  by (cases v) auto

lemma get_or_empty_skip:
  "name \<noteq> other \<Longrightarrow> get_or_empty ((other, v) # ps) name = get_or_empty ps name"
  by (auto simp: get_or_empty_def)

lemma getattr_all:
  "getattr rt k ''manage_all'' = rt ''manage_all''"
  "getattr rt k ''write_all'' = rt ''write_all''"
  "getattr rt k ''read_all'' = rt ''read_all''"
  by (simp_all add: getattr_def key_methods_def)

lemma getattr_sets:
  "getattr rt k ''manage'' = Some (manage k)"
  "getattr rt k ''write'' = Some (write_attr k)"
  "getattr rt k ''read'' = Some (read k)"
  by (simp_all add: getattr_def)

lemma can_sets_only:
  assumes "manage k = manage k'" and "write_attr k = write_attr k'" and "read k = read k'"
    and "p = ''manage'' \<or> p = ''write'' \<or> p = ''read''"
  shows "can rt k p s = can rt k' p s"
proof -
  consider "p = ''manage''" | "p = ''write''" | "p = ''read''"
    using assms(4) by blast
  then show ?thesis
  proof cases
    case 1
    then show ?thesis by (simp add: can_def getattr_sets getattr_all assms(1))
  next
    case 2
    then show ?thesis by (simp add: can_def getattr_sets getattr_all assms(2))
  next
    case 3
    then show ?thesis by (simp add: can_def getattr_sets getattr_all assms(3))
  qed
qed

text \<open>
  C10. Dump/load round trip: for every key \<open>k\<close> that \<^verbatim>\<open>Key(a, l, ps)\<close> constructs,
  \<^verbatim>\<open>Key.load(k.dump())\<close> does not raise \<open>InvalidKey\<close> (or anything else) and yields a key
  with the same api_key, label and permissions mapping; it is the key \<open>k\<close> itself.
\<close>

theorem load_dump_roundtrip:
  assumes "Key a l ps = Inr k"
  shows "\<exists>k'. load (dump k) = Inr k' \<and> api_key k' = api_key k \<and> label k' = label k
              \<and> permissions k' = permissions k \<and> k' = k"
  using assms Key_fields [OF assms] by (simp add: load_def dump_def)

theorem load_dump_roundtrip_witness:
  "Key ''abc'' ''ops'' [(''write'', PList [''web''])] =
     Inr \<lparr> api_key = ''abc'', label = ''ops'', permissions = [(''write'', PList [''web''])],
           manage = PDict [], write_attr = PList [''web''], read = PList [''web''],
           can_manage_all = False, can_write_all = False, can_read_all = False \<rparr>
   \<and> load (dump \<lparr> api_key = ''abc'', label = ''ops'',
                   permissions = [(''write'', PList [''web''])],
                   manage = PDict [], write_attr = PList [''web''], read = PList [''web''],
                   can_manage_all = False, can_write_all = False, can_read_all = False \<rparr>) =
     Inr \<lparr> api_key = ''abc'', label = ''ops'', permissions = [(''write'', PList [''web''])],
           manage = PDict [], write_attr = PList [''web''], read = PList [''web''],
           can_manage_all = False, can_write_all = False, can_read_all = False \<rparr>"
proof -
  have h: "Key ''abc'' ''ops'' [(''write'', PList [''web''])] =
     Inr \<lparr> api_key = ''abc'', label = ''ops'', permissions = [(''write'', PList [''web''])],
           manage = PDict [], write_attr = PList [''web''], read = PList [''web''],
           can_manage_all = False, can_write_all = False, can_read_all = False \<rparr>"
    by code_simp
  from load_dump_roundtrip [OF h] h show ?thesis by simp
qed

text \<open>
  \<^verbatim>\<open>Key.can\<close> never reads the \<^verbatim>\<open>superuser\<close> entry: for \<open>manage\<close>, \<open>write\<close> and
  \<open>read\<close> it returns for a superuser key exactly what it returns for the key built from
  the same mapping with \<^verbatim>\<open>superuser = False\<close>.
\<close>

lemma can_ignores_superuser_entry:
  assumes "Key a l ps = Inr k" and "map_of ps ''superuser'' = Some (PBool True)"
  shows "is_superuser k = PBool True \<and>
         (\<exists>k'. Key a l ((''superuser'', PBool False) # ps) = Inr k' \<and>
               is_superuser k' = PBool False \<and>
               can rt k ''manage'' s = can rt k' ''manage'' s \<and>
               can rt k ''write'' s = can rt k' ''write'' s \<and>
               can rt k ''read'' s = can rt k' ''read'' s)"
proof -
  let ?ps' = "(''superuser'', PBool False) # ps"
  let ?k' = "k\<lparr> permissions := ?ps' \<rparr>"
  have su: "is_superuser k = PBool True"
    using assms Key_fields(3) [OF assms(1)] by (simp add: is_superuser_def get_or_false_def)
  have same: "get_or_empty ?ps' ''manage'' = get_or_empty ps ''manage''"
             "get_or_empty ?ps' ''write'' = get_or_empty ps ''write''"
    by (simp_all add: get_or_empty_skip)
  have k': "Key a l ?ps' = Inr ?k'"
    using assms(1) unfolding Key_def Let_def same
    by (auto split: sum.splits)
  have su': "is_superuser ?k' = PBool False"
    by (simp add: is_superuser_def get_or_false_def)
  have "can rt k p s = can rt ?k' p s"
    if "p = ''manage'' \<or> p = ''write'' \<or> p = ''read''" for p
    by (rule can_sets_only) (use that in simp_all)
  with su k' su' show ?thesis by blast
qed

text \<open>
  C1 at a concrete input. The key built from \<^verbatim>\<open>{"superuser": True}\<close> is a superuser:
  \<^verbatim>\<open>is_superuser()\<close>, "does this key has all rights?", returns \<open>True\<close>. Its three
  permission sets are empty, and \<^verbatim>\<open>can("read", "anything")\<close>, \<^verbatim>\<open>can("write", "anything")\<close>
  and \<^verbatim>\<open>can("manage", "anything")\<close> all return \<open>False\<close>.
\<close>

theorem superuser_key_is_denied:
  "Key ''root'' [] [(''superuser'', PBool True)] =
     Inr \<lparr> api_key = ''root'', label = [], permissions = [(''superuser'', PBool True)],
           manage = PDict [], write_attr = PDict [], read = PDict [],
           can_manage_all = False, can_write_all = False, can_read_all = False \<rparr>
   \<and> is_superuser \<lparr> api_key = ''root'', label = [],
           permissions = [(''superuser'', PBool True)],
           manage = PDict [], write_attr = PDict [], read = PDict [],
           can_manage_all = False, can_write_all = False, can_read_all = False \<rparr> = PBool True
   \<and> can py3_object \<lparr> api_key = ''root'', label = [],
           permissions = [(''superuser'', PBool True)],
           manage = PDict [], write_attr = PDict [], read = PDict [],
           can_manage_all = False, can_write_all = False, can_read_all = False \<rparr>
         ''read'' ''anything'' = Inr False
   \<and> can py3_object \<lparr> api_key = ''root'', label = [],
           permissions = [(''superuser'', PBool True)],
           manage = PDict [], write_attr = PDict [], read = PDict [],
           can_manage_all = False, can_write_all = False, can_read_all = False \<rparr>
         ''write'' ''anything'' = Inr False
   \<and> can py3_object \<lparr> api_key = ''root'', label = [],
           permissions = [(''superuser'', PBool True)],
           manage = PDict [], write_attr = PDict [], read = PDict [],
           can_manage_all = False, can_write_all = False, can_read_all = False \<rparr>
         ''manage'' ''anything'' = Inr False"
  by code_simp

text \<open>
  C3 at two inputs. The key built from \<^verbatim>\<open>{"read": ["web"]}\<close> has an empty \<open>read\<close> set
  (line 39 fills it from the \<^verbatim>\<open>write\<close> entry), so \<^verbatim>\<open>can("read", "web")\<close> and
  \<^verbatim>\<open>can("read", "web.nginx")\<close> return \<open>False\<close>. The key built from
  \<^verbatim>\<open>{"read": ["*"], "write": ["*"]}\<close> has \<^verbatim>\<open>can_read_all = True\<close>, but \<^verbatim>\<open>can\<close> looks up
  the attribute \<^verbatim>\<open>read_all\<close>, which no key has, so \<^verbatim>\<open>can("read", "web")\<close> returns
  \<open>False\<close> as well.
\<close>

theorem read_entry_not_effective:
  "Key ''k'' [] [(''read'', PList [''web''])] =
     Inr \<lparr> api_key = ''k'', label = [], permissions = [(''read'', PList [''web''])],
           manage = PDict [], write_attr = PDict [], read = PDict [],
           can_manage_all = False, can_write_all = False, can_read_all = False \<rparr>
   \<and> can py3_object \<lparr> api_key = ''k'', label = [],
           permissions = [(''read'', PList [''web''])],
           manage = PDict [], write_attr = PDict [], read = PDict [],
           can_manage_all = False, can_write_all = False, can_read_all = False \<rparr>
         ''read'' ''web'' = Inr False
   \<and> can py3_object \<lparr> api_key = ''k'', label = [],
           permissions = [(''read'', PList [''web''])],
           manage = PDict [], write_attr = PDict [], read = PDict [],
           can_manage_all = False, can_write_all = False, can_read_all = False \<rparr>
         ''read'' ''web.nginx'' = Inr False
   \<and> Key ''k'' [] [(''read'', PList [''*'']), (''write'', PList [''*''])] =
     Inr \<lparr> api_key = ''k'', label = [],
           permissions = [(''read'', PList [''*'']), (''write'', PList [''*''])],
           manage = PDict [], write_attr = PList [''*''], read = PList [''*''],
           can_manage_all = False, can_write_all = True, can_read_all = True \<rparr>
   \<and> can py3_object \<lparr> api_key = ''k'', label = [],
           permissions = [(''read'', PList [''*'']), (''write'', PList [''*''])],
           manage = PDict [], write_attr = PList [''*''], read = PList [''*''],
           can_manage_all = False, can_write_all = True, can_read_all = True \<rparr>
         ''read'' ''web'' = Inr False"
  by code_simp

text \<open>
  C4, as the code has it. The implication chain is built into the wrappers
  \<^verbatim>\<open>can_manage\<close>, \<^verbatim>\<open>can_write\<close> and \<^verbatim>\<open>can_read\<close>, not into \<^verbatim>\<open>can\<close>: for every key and
  every scope \<open>s\<close>, if \<^verbatim>\<open>can_manage(s)\<close> returns \<open>True\<close> then so does \<^verbatim>\<open>can_write(s)\<close>,
  and if \<^verbatim>\<open>can_write(s)\<close> returns \<open>True\<close> then so does \<^verbatim>\<open>can_read(s)\<close>.
\<close>

theorem permission_implication_wrappers:
  "(can_manage rt k s = Inr True \<longrightarrow> can_write rt k s = Inr True) \<and>
   (can_write rt k s = Inr True \<longrightarrow> can_read rt k s = Inr True)"
  by (simp add: can_write_def can_read_def)

theorem permission_implication_wrappers_witness:
  "can_manage py3_object \<lparr> api_key = ''k'', label = [],
           permissions = [(''manage'', PList [''web''])],
           manage = PList [''web''], write_attr = PDict [], read = PDict [],
           can_manage_all = False, can_write_all = False, can_read_all = False \<rparr>
         ''web.nginx'' = Inr True
   \<and> can_write py3_object \<lparr> api_key = ''k'', label = [],
           permissions = [(''manage'', PList [''web''])],
           manage = PList [''web''], write_attr = PDict [], read = PDict [],
           can_manage_all = False, can_write_all = False, can_read_all = False \<rparr>
         ''web.nginx'' = Inr True
   \<and> can_read py3_object \<lparr> api_key = ''k'', label = [],
           permissions = [(''manage'', PList [''web''])],
           manage = PList [''web''], write_attr = PDict [], read = PDict [],
           can_manage_all = False, can_write_all = False, can_read_all = False \<rparr>
         ''web.nginx'' = Inr True"
proof -
  let ?k = "\<lparr> api_key = ''k'', label = [],
           permissions = [(''manage'', PList [''web''])],
           manage = PList [''web''], write_attr = PDict [], read = PDict [],
           can_manage_all = False, can_write_all = False, can_read_all = False \<rparr>"
  have h: "can_manage py3_object ?k ''web.nginx'' = Inr True"
    by code_simp
  from permission_implication_wrappers [of py3_object ?k "''web.nginx''"] h
  show ?thesis by blast
qed

text \<open>
  C4 as the specification states it, on \<^verbatim>\<open>can\<close> itself, fails: the key built from
  \<^verbatim>\<open>{"manage": ["web"]}\<close> answers \<open>True\<close> to \<^verbatim>\<open>can("manage", "web")\<close> and \<open>False\<close> to
  \<^verbatim>\<open>can("write", "web")\<close>.
\<close>

theorem can_implication_counterexample:
  "Key ''k'' [] [(''manage'', PList [''web''])] =
     Inr \<lparr> api_key = ''k'', label = [], permissions = [(''manage'', PList [''web''])],
           manage = PList [''web''], write_attr = PDict [], read = PDict [],
           can_manage_all = False, can_write_all = False, can_read_all = False \<rparr>
   \<and> can py3_object \<lparr> api_key = ''k'', label = [],
           permissions = [(''manage'', PList [''web''])],
           manage = PList [''web''], write_attr = PDict [], read = PDict [],
           can_manage_all = False, can_write_all = False, can_read_all = False \<rparr>
         ''manage'' ''web'' = Inr True
   \<and> can py3_object \<lparr> api_key = ''k'', label = [],
           permissions = [(''manage'', PList [''web''])],
           manage = PList [''web''], write_attr = PDict [], read = PDict [],
           can_manage_all = False, can_write_all = False, can_read_all = False \<rparr>
         ''write'' ''web'' = Inr False"
  by code_simp

text \<open>
  C7, as the code has it. The guard of \<^verbatim>\<open>can\<close> is \<^verbatim>\<open>hasattr(self, permission)\<close>:
  \<^verbatim>\<open>can(p, scope)\<close> raises \<open>UnknownPermission\<close> exactly when the key object has no
  attribute named \<open>p\<close>.
\<close>

theorem unknown_permission_iff_no_attribute:
  "(can rt k p s = Inl UnknownPermission) = (getattr rt k p = None)"
proof (cases "getattr rt k p")
  case None
  then show ?thesis by (simp add: can_def)
next
  case (Some perms)
  have "py_in x perms \<noteq> Inl UnknownPermission" for x
    using py_in_error [of x perms UnknownPermission] by auto
  then have "can rt k p s \<noteq> Inl UnknownPermission"
    using Some by (auto simp: can_def split: sum.splits option.splits)
  with Some show ?thesis by simp
qed

text \<open>
  C7 as the specification states it fails: \<^verbatim>\<open>label\<close> is none of \<open>manage\<close>, \<open>write\<close>,
  \<open>read\<close>, it is an attribute of every key, and \<^verbatim>\<open>can("label", "x")\<close> returns \<open>False\<close>
  (the substring test \<^verbatim>\<open>"x" in "ops"\<close>) instead of raising.
\<close>

theorem unknown_permission_counterexample:
  "Key ''k'' ''ops'' [] =
     Inr \<lparr> api_key = ''k'', label = ''ops'', permissions = [],
           manage = PDict [], write_attr = PDict [], read = PDict [],
           can_manage_all = False, can_write_all = False, can_read_all = False \<rparr>
   \<and> ''label'' \<notin> {''manage'', ''write'', ''read''}
   \<and> can py3_object \<lparr> api_key = ''k'', label = ''ops'', permissions = [],
           manage = PDict [], write_attr = PDict [], read = PDict [],
           can_manage_all = False, can_write_all = False, can_read_all = False \<rparr>
         ''label'' ''x'' = Inr False"
  by code_simp

section \<open>Properties of the key store\<close>

lemma update_absent: "map_of xs k = None \<Longrightarrow> AList.update k v xs = xs @ [(k, v)]"
  by (induction xs) (auto split: if_splits)

lemma get_key_hit: "map_of (cache m) k = Some v \<Longrightarrow> get_key loads m k = (Inr v, m)"
  by (simp add: get_key_def)

lemma get_key_miss_room:
  assumes "map_of (cache m) k = None" and "backend_get_key loads (backend m) k = Inr okey"
    and "length (cache m) < 1000"
  shows "get_key loads m k =
           (Inr okey, m\<lparr> cache := cache m @ [(k, okey)], entries := entries m @ [k] \<rparr>)"
  using assms by (simp add: get_key_def cache_insert_def update_absent)

lemma get_key_miss_full:
  assumes "map_of (cache m) k = None" and "backend_get_key loads (backend m) k = Inr okey"
    and "1000 \<le> length (cache m)" and "entries m = e # es"
  shows "get_key loads m k = (Inl KeyError, m\<lparr> entries := es \<rparr>)"
  using assms by (simp add: get_key_def)

lemma get_key_fill:
  assumes "distinct ks" and "set ks \<inter> fst ` set (cache m) = {}"
    and "length (cache m) + length ks \<le> 1000"
    and "list_all (\<lambda>k. backend_get_key loads (backend m) k = Inr (okey k)) ks"
  shows "fold (\<lambda>k m. snd (get_key loads m k)) ks m =
           m\<lparr> cache := cache m @ map (\<lambda>k. (k, okey k)) ks, entries := entries m @ ks \<rparr>"
  using assms
proof (induction ks arbitrary: m)
  case Nil
  then show ?case by simp
next
  case (Cons k ks)
  let ?m' = "m\<lparr> cache := cache m @ [(k, okey k)], entries := entries m @ [k] \<rparr>"
  have cold: "map_of (cache m) k = None"
    using Cons.prems(2) by (auto simp: map_of_eq_None_iff)
  have step: "get_key loads m k = (Inr (okey k), ?m')"
    using Cons.prems cold by (intro get_key_miss_room) auto
  have "fold (\<lambda>k m. snd (get_key loads m k)) ks ?m' =
          ?m'\<lparr> cache := cache ?m' @ map (\<lambda>k. (k, okey k)) ks, entries := entries ?m' @ ks \<rparr>"
    using Cons.prems by (intro Cons.IH) auto
  then show ?case by (simp add: step)
qed

lemma find_row:
  "distinct (map fst rows) \<Longrightarrow> r \<in> set rows \<Longrightarrow> find (\<lambda>r'. fst r' = fst r) rows = Some r"
  by (induction rows) (auto simp: image_iff)

lemma key_name_inj: "key_name i = key_name j \<Longrightarrow> i = j"
  by (metis key_name_def length_replicate nat.inject)

lemma key_name_not_new: "key_name i \<noteq> ''new''" "''new'' \<noteq> key_name i"
  by (simp_all add: key_name_def)

lemma key_names_distinct: "distinct (map key_name [0..<n])"
  by (auto simp: distinct_map inj_on_def dest: key_name_inj)

lemma cold_rows_distinct: "distinct (map fst (cold_rows n))"
  using key_names_distinct [of n]
  by (auto simp: cold_rows_def comp_def key_name_not_new)

lemma backend_get_key_row:
  assumes "conn b = Some rows" and "distinct (map fst rows)" and "(k, ''{}'', p) \<in> set rows"
  shows "backend_get_key loads_example b k = Inr (JObj [(''key'', JStr k)])"
  using assms find_row [of rows "(k, ''{}'', p)"]
  by (simp add: backend_get_key_def make_key_def loads_example_def)

lemma cold_get_name:
  "i < n \<Longrightarrow> backend_get_key loads_example \<lparr> conn = Some (cold_rows n) \<rparr> (key_name i)
     = Inr (JObj [(''key'', JStr (key_name i))])"
  by (rule backend_get_key_row [where p = None and rows = "cold_rows n"])
     (auto simp: cold_rows_distinct, simp add: cold_rows_def)

lemma cold_get_new:
  "backend_get_key loads_example \<lparr> conn = Some (cold_rows n) \<rparr> ''new''
     = Inr (JObj [(''key'', JStr ''new'')])"
  by (rule backend_get_key_row [where p = None and rows = "cold_rows n"])
     (auto simp: cold_rows_distinct, simp add: cold_rows_def)

lemma fill_cache:
  assumes "n \<le> 1000"
  shows "fold (\<lambda>k m. snd (get_key loads_example m k)) (map key_name [0..<n])
        \<lparr> cache = [], entries = [], backend = \<lparr> conn = Some (cold_rows n) \<rparr> \<rparr>
   = \<lparr> cache = cached n, entries = map key_name [0..<n],
       backend = \<lparr> conn = Some (cold_rows n) \<rparr> \<rparr>"
proof -
  let ?m = "\<lparr> cache = [], entries = [], backend = \<lparr> conn = Some (cold_rows n) \<rparr> \<rparr>"
  have a: "list_all (\<lambda>k. backend_get_key loads_example (backend ?m) k
                           = Inr (JObj [(''key'', JStr k)])) (map key_name [0..<n])"
    by (auto simp: list_all_iff cold_get_name)
  have "fold (\<lambda>k m. snd (get_key loads_example m k)) (map key_name [0..<n]) ?m =
          ?m\<lparr> cache := cache ?m @ map (\<lambda>k. (k, JObj [(''key'', JStr k)])) (map key_name [0..<n]),
               entries := entries ?m @ map key_name [0..<n] \<rparr>"
    using key_names_distinct [of n] a assms by (intro get_key_fill) auto
  then show ?thesis by (simp add: cached_def comp_def)
qed

lemma full_cache_raises:
  assumes "1000 \<le> n"
  shows "get_key loads_example
      \<lparr> cache = cached n, entries = map key_name [0..<n],
        backend = \<lparr> conn = Some (cold_rows n) \<rparr> \<rparr> ''new''
   = (Inl KeyError,
      \<lparr> cache = cached n, entries = map key_name [1..<n],
        backend = \<lparr> conn = Some (cold_rows n) \<rparr> \<rparr>)"
proof -
  let ?m = "\<lparr> cache = cached n, entries = map key_name [0..<n],
        backend = \<lparr> conn = Some (cold_rows n) \<rparr> \<rparr>"
  have c: "map_of (cache ?m) ''new'' = None"
    by (auto simp: map_of_eq_None_iff cached_def image_iff key_name_not_new)
  have "[0..<n] = 0 # [1..<n]"
    using assms by (simp add: upt_eq_Cons_conv)
  then have e: "entries ?m = key_name 0 # map key_name [1..<n]"
    by simp
  have l: "1000 \<le> length (cache ?m)"
    using assms by (simp add: cached_def)
  have "get_key loads_example ?m ''new'' = (Inl KeyError, ?m\<lparr> entries := map key_name [1..<n] \<rparr>)"
    using c e l cold_get_new [of n]
    by (intro get_key_miss_full [where okey = "JObj [(''key'', JStr ''new'')]" and e = "key_name 0"])
       simp_all
  then show ?thesis by simp
qed

text \<open>
  C5 at a concrete input. From the empty manager, \<^verbatim>\<open>get_key\<close> on 1000 distinct cold
  keys fills the cache with exactly 1000 entries. The next cold \<^verbatim>\<open>get_key("new")\<close>
  raises \<open>KeyError\<close>: the oldest name has left the deque, the cache still holds all
  1000 old entries, the oldest among them, and \<^verbatim>\<open>new\<close> is not inserted.
\<close>

theorem cache_full_get_key_raises:
  "fold (\<lambda>k m. snd (get_key loads_example m k)) (map key_name [0..<1000])
        \<lparr> cache = [], entries = [], backend = \<lparr> conn = Some (cold_rows 1000) \<rparr> \<rparr>
     = \<lparr> cache = cached 1000, entries = map key_name [0..<1000],
         backend = \<lparr> conn = Some (cold_rows 1000) \<rparr> \<rparr>
   \<and> length (cached 1000) = 1000
   \<and> get_key loads_example
        \<lparr> cache = cached 1000, entries = map key_name [0..<1000],
          backend = \<lparr> conn = Some (cold_rows 1000) \<rparr> \<rparr> ''new''
     = (Inl KeyError,
        \<lparr> cache = cached 1000, entries = map key_name [1..<1000],
          backend = \<lparr> conn = Some (cold_rows 1000) \<rparr> \<rparr>)"
proof (intro conjI)
  show "fold (\<lambda>k m. snd (get_key loads_example m k)) (map key_name [0..<1000])
        \<lparr> cache = [], entries = [], backend = \<lparr> conn = Some (cold_rows 1000) \<rparr> \<rparr>
     = \<lparr> cache = cached 1000, entries = map key_name [0..<1000],
         backend = \<lparr> conn = Some (cold_rows 1000) \<rparr> \<rparr>"
    by (rule fill_cache) simp
  show "length (cached 1000) = 1000"
    by (simp add: cached_def)
  show "get_key loads_example
        \<lparr> cache = cached 1000, entries = map key_name [0..<1000],
          backend = \<lparr> conn = Some (cold_rows 1000) \<rparr> \<rparr> ''new''
     = (Inl KeyError,
        \<lparr> cache = cached 1000, entries = map key_name [1..<1000],
          backend = \<lparr> conn = Some (cold_rows 1000) \<rparr> \<rparr>)"
    by (rule full_cache_raises) simp
qed

text \<open>
  C2 at a concrete input: the rows \<^verbatim>\<open>root\<close>, \<^verbatim>\<open>child1\<close> (parent \<^verbatim>\<open>root\<close>) and \<^verbatim>\<open>grand\<close>
  (parent \<^verbatim>\<open>child1\<close>), with \<^verbatim>\<open>child1\<close> cached. \<^verbatim>\<open>delete_key("root")\<close> raises
  \<open>AttributeError\<close> and changes neither the table nor the cache: \<^verbatim>\<open>has_key\<close> is still
  \<open>True\<close> for both descendants, and \<^verbatim>\<open>get_key("child1")\<close> returns the cached key. The
  backend's own \<^verbatim>\<open>delete_key("root")\<close> removes the row \<^verbatim>\<open>root\<close> only.
\<close>

theorem delete_key_keeps_descendants:
  "delete_key
      \<lparr> cache = [(''child1'', JObj [(''key'', JStr ''child1'')])], entries = [''child1''],
        backend = \<lparr> conn = Some [(''root'', ''{}'', None), (''child1'', ''{}'', Some ''root''),
                                   (''grand'', ''{}'', Some ''child1'')] \<rparr> \<rparr> ''root''
     = (Inl (AttributeError ''conn''),
        \<lparr> cache = [(''child1'', JObj [(''key'', JStr ''child1'')])], entries = [''child1''],
          backend = \<lparr> conn = Some [(''root'', ''{}'', None), (''child1'', ''{}'', Some ''root''),
                                     (''grand'', ''{}'', Some ''child1'')] \<rparr> \<rparr>)
   \<and> has_key loads_example
        \<lparr> cache = [(''child1'', JObj [(''key'', JStr ''child1'')])], entries = [''child1''],
          backend = \<lparr> conn = Some [(''root'', ''{}'', None), (''child1'', ''{}'', Some ''root''),
                                     (''grand'', ''{}'', Some ''child1'')] \<rparr> \<rparr> ''child1''
     = Inr True
   \<and> has_key loads_example
        \<lparr> cache = [(''child1'', JObj [(''key'', JStr ''child1'')])], entries = [''child1''],
          backend = \<lparr> conn = Some [(''root'', ''{}'', None), (''child1'', ''{}'', Some ''root''),
                                     (''grand'', ''{}'', Some ''child1'')] \<rparr> \<rparr> ''grand''
     = Inr True
   \<and> fst (get_key loads_example
        \<lparr> cache = [(''child1'', JObj [(''key'', JStr ''child1'')])], entries = [''child1''],
          backend = \<lparr> conn = Some [(''root'', ''{}'', None), (''child1'', ''{}'', Some ''root''),
                                     (''grand'', ''{}'', Some ''child1'')] \<rparr> \<rparr> ''child1'')
     = Inr (JObj [(''key'', JStr ''child1'')])
   \<and> backend_delete_key
        \<lparr> conn = Some [(''root'', ''{}'', None), (''child1'', ''{}'', Some ''root''),
                       (''grand'', ''{}'', Some ''child1'')] \<rparr> ''root''
     = (Inr (), \<lparr> conn = Some [(''child1'', ''{}'', Some ''root''),
                               (''grand'', ''{}'', Some ''child1'')] \<rparr>)
   \<and> backend_has_key loads_example
        \<lparr> conn = Some [(''child1'', ''{}'', Some ''root''),
                       (''grand'', ''{}'', Some ''child1'')] \<rparr> ''child1''
     = Inr True"
  by code_simp

text \<open>
  C6 at a concrete input: \<^verbatim>\<open>set_key("k", "{}")\<close> on a table that holds the key \<^verbatim>\<open>k\<close>
  raises \<open>NameError\<close> for the unbound name \<^verbatim>\<open>UserConflict\<close>, from the backend and
  through the manager, and leaves the table as it was. No call of the backend's
  \<^verbatim>\<open>set_key\<close> raises \<open>KeyConflict\<close>.
\<close>

theorem set_key_conflict_raises_name_error:
  "backend_set_key dumps \<lparr> conn = Some [(''k'', ''{}'', None)] \<rparr> ''k'' (DataStr ''{}'') None
     = (Inl (NameError ''UserConflict''), \<lparr> conn = Some [(''k'', ''{}'', None)] \<rparr>)
   \<and> set_key dumps publlish
        \<lparr> cache = [], entries = [], backend = \<lparr> conn = Some [(''k'', ''{}'', None)] \<rparr> \<rparr>
        ''k'' (DataStr ''{}'') None
     = (Inl (NameError ''UserConflict''),
        \<lparr> cache = [], entries = [], backend = \<lparr> conn = Some [(''k'', ''{}'', None)] \<rparr> \<rparr>)
   \<and> fst (backend_set_key dumps b k d p) \<noteq> Inl KeyConflict"
  by (simp add: backend_set_key_def set_key_def Let_def split: option.splits)

lemma backend_set_key_fresh:
  assumes "conn b = Some rows" and "k \<notin> set (map fst rows)"
  shows "backend_set_key dumps b k (DataStr t) parent =
           (Inr (), b\<lparr> conn := Some (rows @ [(k, t, parent)]) \<rparr>)"
  using assms by (simp add: backend_set_key_def)

section \<open>Properties of the configuration\<close>

lemma list_text_is_no_joined_path:
  "''unix:['' @ a @ '', '' @ b @ '']'' \<noteq> ''unix:'' @ t @ ''/gaffer.sock''"
proof
  assume "''unix:['' @ a @ '', '' @ b @ '']'' = ''unix:'' @ t @ ''/gaffer.sock''"
  then have "last (''unix:['' @ a @ '', '' @ b @ '']'') = last (''unix:'' @ t @ ''/gaffer.sock'')"
    by simp
  then show False by simp
qed

text \<open>
  C9 at the configuration with no section at all, for every library and heap. Line 156
  passes one list to \<^verbatim>\<open>os.path.join\<close>. In Python 3 \<^verbatim>\<open>get_config\<close> raises \<open>TypeError\<close>;
  in Python 2 it returns one endpoint whose URI is \<^verbatim>\<open>unix:\<close> followed by the text of
  the list, \<^verbatim>\<open>['<tmp>', 'gaffer.sock']\<close>. That text is never the joined path, which
  for the temp directory \<^verbatim>\<open>/tmp\<close> is \<^verbatim>\<open>/tmp/gaffer.sock\<close>.
\<close>

theorem default_endpoint_not_joined_path:
  "get_config lib h [] =
     (if python3 lib then Inl TypeError
      else Inr (([HttpEndpointUri (''unix:['' @ repr_str lib (gettempdir lib) @ '', ''
                                     @ repr_str lib ''gaffer.sock'' @ '']'')], []), h))
   \<and> ''unix:['' @ repr_str lib (gettempdir lib) @ '', '' @ repr_str lib ''gaffer.sock'' @ '']''
       \<noteq> ''unix:'' @ gettempdir lib @ ''/gaffer.sock''
   \<and> os_path_join lib (PathStr ''/tmp'') [PathStr ''gaffer.sock'']
       = Inr (PathStr ''/tmp/gaffer.sock'')"
proof (intro conjI)
  show "get_config lib h [] =
     (if python3 lib then Inl TypeError
      else Inr (([HttpEndpointUri (''unix:['' @ repr_str lib (gettempdir lib) @ '', ''
                                     @ repr_str lib ''gaffer.sock'' @ '']'')], []), h))"
    by (simp add: get_config_def cfg_get_def os_path_join_def unix_uri_def)
  show "''unix:['' @ repr_str lib (gettempdir lib) @ '', '' @ repr_str lib ''gaffer.sock'' @ '']''
       \<noteq> ''unix:'' @ gettempdir lib @ ''/gaffer.sock''"
    by (rule list_text_is_no_joined_path)
  show "os_path_join lib (PathStr ''/tmp'') [PathStr ''gaffer.sock'']
       = Inr (PathStr ''/tmp/gaffer.sock'')"
    by (simp add: os_path_join_def suffix_def)
qed

lemma cfg_get_result:
  "cfg_get lib cfg section option dflt = Inr v \<Longrightarrow> v = dflt"
  by (auto simp: cfg_get_def super_get_def split: option.splits)

lemma process_section_adds_nothing:
  "process_section lib cfg sec st = Inr st' \<Longrightarrow> st' = st"
  by (auto simp: process_section_def Let_def split: sum.splits dest: cfg_get_result)

lemma endpoint_section_processes:
  "endpoint_section lib cfg names sec st = Inr st' \<Longrightarrow> processes st' = processes st"
  by (auto simp: endpoint_section_def Let_def
      split: if_splits sum.splits prod.splits kwargs.splits)

lemma section_step_processes:
  "section_step lib cfg names sec st = Inr st' \<Longrightarrow> processes st' = processes st"
  by (auto simp: section_step_def split: if_splits
      dest: process_section_adds_nothing endpoint_section_processes)

lemma sections_loop_processes:
  "sections_loop lib cfg names secs st = Inr st' \<Longrightarrow> processes st' = processes st"
proof (induction secs arbitrary: st)
  case Nil
  then show ?case by simp
next
  case (Cons sec secs)
  then show ?case
    by (auto split: sum.splits dest: section_step_processes)
qed

text \<open>
  No call of \<^verbatim>\<open>get_config\<close> that returns has produced a process, hence none has
  produced an env parameter: a process section is skipped when it has no \<^verbatim>\<open>cmd\<close>, and
  line 127 raises when it has one.
\<close>

lemma get_config_no_process:
  assumes "get_config lib h cfg = Inr ((eps, procs), h')"
  shows "procs = []"
proof -
  obtain names st where
    loop: "sections_loop lib cfg names cfg \<lparr> endpoints = [], processes = [], objects = h \<rparr>
             = Inr st"
    and procs: "procs = processes st"
    using assms by (auto simp: get_config_def split: sum.splits if_splits)
  from sections_loop_processes [OF loop] procs show ?thesis by simp
qed

text \<open>
  C8 at a concrete input, for every library, either version and every heap: the
  configuration with the process sections \<^verbatim>\<open>a\<close> and \<^verbatim>\<open>b\<close>, each with a \<^verbatim>\<open>cmd\<close> and one
  line \<^verbatim>\<open>env:FOO = 1\<close> or \<^verbatim>\<open>env:BAR = 2\<close>, which the parser reads as the option \<^verbatim>\<open>env\<close>
  (it cuts an option at the first \<^verbatim>\<open>:\<close> or \<^verbatim>\<open>=\<close>). \<^verbatim>\<open>get_config\<close> raises \<open>TypeError\<close> when
  line 127 reads the \<^verbatim>\<open>cmd\<close> of the first section; no env parameter is produced for
  \<^verbatim>\<open>b\<close>. The same holds with section \<^verbatim>\<open>b\<close> alone.
\<close>

theorem process_sections_produce_no_env:
  "get_config lib h
      [(''process:a'', [(''cmd'', ''/bin/a''), (''env'', ''FOO = 1'')]),
       (''process:b'', [(''cmd'', ''/bin/b''), (''env'', ''BAR = 2'')])]
     = Inl TypeError
   \<and> get_config lib h [(''process:b'', [(''cmd'', ''/bin/b''), (''env'', ''BAR = 2'')])]
     = Inl TypeError"
  by (simp add: get_config_def section_step_def process_section_def cfg_get_def
        super_get_def)

end
